theory Spec2Isabelle
  imports Complex_Main
begin

section \<open>Strings and regular expressions of the host language\<close>

text \<open>
  A string is a list of characters; a character stands for one UTF-16 code unit below 256,
  so \<open>length\<close> is the \<^verbatim>\<open>.length\<close> of the source. A value that may be
  \<^verbatim>\<open>undefined\<close> at run time is an \<open>option\<close>, with \<open>None\<close> for
  \<^verbatim>\<open>undefined\<close>.

  \<open>is_space\<close> is the white space of \<^verbatim>\<open>String.prototype.trim\<close> and of the class
  \<^verbatim>\<open>\s\<close> in that range: tab, line feed, vertical tab, form feed, carriage return,
  space and no-break space.
\<close>

definition is_space :: "char \<Rightarrow> bool" where
  "is_space c = (c \<in> set [CHR 0x09, CHR 0x0A, CHR 0x0B, CHR 0x0C, CHR 0x0D, CHR 0x20, CHR 0xA0])"

definition trim :: "string \<Rightarrow> string" where
  "trim s = rev (dropWhile is_space (rev (dropWhile is_space s)))"

text \<open>\<^verbatim>\<open>s.replace(/\s/g, '')\<close>\<close>

definition strip_spaces :: "string \<Rightarrow> string" where
  "strip_spaces s = filter (\<lambda>c. \<not> is_space c) s"

text \<open>Truthiness of a possibly undefined string: \<^verbatim>\<open>undefined\<close> and \<^verbatim>\<open>''\<close> are falsy.\<close>

fun truthy :: "string option \<Rightarrow> bool" where
  "truthy None = False"
| "truthy (Some s) = (s \<noteq> [])"

text \<open>The recurring test \<^verbatim>\<open>!x || x.trim() === ''\<close>.\<close>

fun missing :: "string option \<Rightarrow> bool" where
  "missing None = True"
| "missing (Some s) = (s = [] \<or> trim s = [])"

text \<open>\<^verbatim>\<open>x || d\<close> on a possibly undefined string.\<close>

fun or_else :: "string option \<Rightarrow> string \<Rightarrow> string" where
  "or_else None d = d"
| "or_else (Some s) d = (if s = [] then d else s)"

text \<open>Decimal rendering of an array index inside a template literal.\<close>

definition digit_chr :: "nat \<Rightarrow> char" where
  "digit_chr n = ''0123456789'' ! (n mod 10)"

fun show_nat :: "nat \<Rightarrow> string" where
  "show_nat n = (if n < 10 then [digit_chr n] else show_nat (n div 10) @ [digit_chr n])"

declare show_nat.simps [simp del]

text \<open>\<^verbatim>\<open>Array.prototype.join(', ')\<close> on an array of strings.\<close>

fun join_comma :: "string list \<Rightarrow> string" where
  "join_comma [] = []"
| "join_comma [x] = x"
| "join_comma (x # y # ys) = x @ '', '' @ join_comma (y # ys)"

subsection \<open>Regular expressions\<close>

text \<open>
  The literals of the source use character classes, alternation, concatenation and bounded
  repetition only, and every one is anchored at both ends (without the multi-line flag), so
  \<^verbatim>\<open>re.test(s)\<close> is membership of the whole string in the language of the
  expression. Membership is computed with derivatives.
\<close>

datatype rx =
    Nul
  | Eps
  | Cls string
  | NCls string
  | Alt rx rx
  | Seq rx rx
  | Star rx

fun nullable :: "rx \<Rightarrow> bool" where
  "nullable Nul = False"
| "nullable Eps = True"
| "nullable (Cls cs) = False"
| "nullable (NCls cs) = False"
| "nullable (Alt r s) = (nullable r \<or> nullable s)"
| "nullable (Seq r s) = (nullable r \<and> nullable s)"
| "nullable (Star r) = True"

fun deriv :: "char \<Rightarrow> rx \<Rightarrow> rx" where
  "deriv c Nul = Nul"
| "deriv c Eps = Nul"
| "deriv c (Cls cs) = (if c \<in> set cs then Eps else Nul)"
| "deriv c (NCls cs) = (if c \<in> set cs then Nul else Eps)"
| "deriv c (Alt r s) = Alt (deriv c r) (deriv c s)"
| "deriv c (Seq r s) =
     (if nullable r then Alt (Seq (deriv c r) s) (deriv c s) else Seq (deriv c r) s)"
| "deriv c (Star r) = Seq (deriv c r) (Star r)"

fun rx_test :: "rx \<Rightarrow> string \<Rightarrow> bool" where
  "rx_test r [] = nullable r"
| "rx_test r (c # cs) = rx_test (deriv c r) cs"

definition Opt :: "rx \<Rightarrow> rx" where
  "Opt r = Alt r Eps"

definition Plus :: "rx \<Rightarrow> rx" where
  "Plus r = Seq r (Star r)"

text \<open>\<open>Rep n r\<close> is \<^verbatim>\<open>r{n}\<close> and \<open>RepUpTo n r\<close> is \<^verbatim>\<open>r{0,n}\<close>.\<close>

fun Rep :: "nat \<Rightarrow> rx \<Rightarrow> rx" where
  "Rep 0 r = Eps"
| "Rep (Suc n) r = Seq r (Rep n r)"

fun RepUpTo :: "nat \<Rightarrow> rx \<Rightarrow> rx" where
  "RepUpTo 0 r = Eps"
| "RepUpTo (Suc n) r = Opt (Seq r (RepUpTo n r))"

definition spaces :: string where
  "spaces = [CHR 0x09, CHR 0x0A, CHR 0x0B, CHR 0x0C, CHR 0x0D, CHR 0x20, CHR 0xA0]"

definition digits :: string where
  "digits = ''0123456789''"

text \<open>\<^verbatim>\<open>[A-Z]\<close> under the flag \<^verbatim>\<open>i\<close>.\<close>

definition letters_i :: string where
  "letters_i = ''ABCDEFGHIJKLMNOPQRSTUVWXYZabcdefghijklmnopqrstuvwxyz''"

text \<open>\<^verbatim>\<open>/^([01]?[0-9]|2[0-3]):[0-5][0-9]$/\<close>\<close>

definition timeRegex :: rx where
  "timeRegex =
     Seq (Alt (Seq (Opt (Cls ''01'')) (Cls digits)) (Seq (Cls ''2'') (Cls ''0123'')))
         (Seq (Cls '':'') (Seq (Cls ''012345'') (Cls digits)))"

text \<open>\<^verbatim>\<open>/^[A-Z]{2}[0-9]{2}\s?[A-Z]{3}$|^[A-Z][0-9]{1,3}\s?[A-Z]{3}$/i\<close>\<close>

definition ukRegRegex :: rx where
  "ukRegRegex =
     Alt (Seq (Rep 2 (Cls letters_i))
              (Seq (Rep 2 (Cls digits)) (Seq (Opt (Cls spaces)) (Rep 3 (Cls letters_i)))))
         (Seq (Cls letters_i)
              (Seq (Seq (Cls digits) (RepUpTo 2 (Cls digits)))
                   (Seq (Opt (Cls spaces)) (Rep 3 (Cls letters_i)))))"

text \<open>\<^verbatim>\<open>/^[^\s@]+@[^\s@]+\.[^\s@]+$/\<close>\<close>

definition emailRegex :: rx where
  "emailRegex =
     Seq (Plus (NCls (spaces @ ''@'')))
         (Seq (Cls ''@'')
              (Seq (Plus (NCls (spaces @ ''@'')))
                   (Seq (Cls ''.'') (Plus (NCls (spaces @ ''@''))))))"

text \<open>\<^verbatim>\<open>/^(\+44|0)[0-9\s]{10,13}$/\<close>\<close>

definition ukPhoneRegex :: rx where
  "ukPhoneRegex =
     Seq (Alt (Seq (Cls ''+'') (Seq (Cls ''4'') (Cls ''4''))) (Cls ''0''))
         (Seq (Rep 10 (Cls (digits @ spaces))) (RepUpTo 3 (Cls (digits @ spaces))))"

definition isValidEmail :: "string \<Rightarrow> bool" where
  "isValidEmail email = rx_test emailRegex email"

definition isValidUKPhone :: "string \<Rightarrow> bool" where
  "isValidUKPhone phone = rx_test ukPhoneRegex (strip_spaces phone)"

section \<open>The incident record\<close>

text \<open>
  The records follow \<^verbatim>\<open>shared/src/types/incident.ts\<close>. They list the fields that
  validation, mapping and rendering read; a field that none of them reads is left out.
  A field declared optional in the source is an
  \<open>option\<close>. The store validates drafts (\<^verbatim>\<open>current as IncidentReport\<close>), and the
  validator tests many fields declared mandatory for absence, so each field that the
  validator tests is an \<open>option\<close> here as well. Numbers are reals. A field whose
  name occurs in several interfaces carries a suffix.
\<close>

record GpsCoordinates =
  latitude :: real
  longitude :: real

record IncidentLocation =
  gpsCoordinates :: "GpsCoordinates option"
  manualAddress :: "string option"
  siteName :: "string option"
  department :: "string option"
  area :: "string option"

record ReportingPerson =
  name_rp :: "string option"
  jobTitle :: "string option"
  contactNumber :: "string option"
  email :: "string option"
  employer_rp :: "string option"

record Witness =
  name_w :: string
  contactDetails_w :: "string option"
  statement :: "string option"

record TrainingDetails =
  hasTraining :: bool

record PersonInvolved =
  fullName :: "string option"
  age :: "real option"
  roleOrRelationship :: string
  employer_pi :: "string option"
  contactDetails_pi :: "string option"
  relevantTraining :: "TrainingDetails option"

record PPEUsage =
  used :: bool
  types :: "string list option"
  functioningProperly :: "bool option"

record FirstAidDetails =
  given :: bool
  treatment :: "string option"

record HospitalVisit =
  wentToHospital :: bool
  hospitalName :: "string option"

record InjuryDetails =
  natureOfInjury :: "string option"
  bodyPartsAffected :: "string list option"
  severity :: "string option"
  firstAidGiven :: "FirstAidDetails option"
  hospitalVisit :: "HospitalVisit option"
  expectedLostTimeDays :: "real option"
  ppeUsed :: "PPEUsage option"

record PropertyDamageDetails =
  assetType :: "string option"
  assetDescription :: "string option"
  assetIdOrSerial :: "string option"
  extentOfDamage :: "string option"
  estimatedCost :: "real option"
  urgentRepairRequired :: "bool option"
  conditionBeforeIncident :: string

record VehicleDetails =
  companyVehicle :: "bool option"
  registration :: "string option"
  makeModel :: "string option"
  driverName :: "string option"
  driverLicenceNumber :: "string option"
  policeNotified :: "bool option"
  policeReferenceNumber :: "string option"
  roadConditions :: "string option"
  weatherConditions :: "string option"
  approximateSpeedKmh :: "real option"

record PublicLiabilityDetails =
  reasonForBeingOnSite :: "string option"
  authorizedVisitor :: bool
  signedIn :: bool
  preExistingConditions :: "string option"
  refusedTreatment :: bool

record IncidentDescription =
  whatHappened :: "string option"
  sequenceOfEvents :: "string option"
  activityAtTime :: "string option"
  immediateCause :: "string option"
  unsafeConditions :: "string option"
  unsafeActs :: "string option"
  environmentalFactors :: "string option"
  equipmentFactors :: "string option"
  supervisionPresent :: string
  areaPreviouslyInspected :: string

record RootCauseAnalysis =
  directCause :: "string option"
  indirectCause :: "string option"
  underlyingRootCause :: "string option"
  contributingFactors :: "string list option"
  preventativeMeasures :: "string option"
  wereControlsAdequate :: "string option"
  controlsExplanation :: "string option"

record CorrectiveAction =
  description :: "string option"
  responsiblePerson :: "string option"
  dueDate :: "string option"
  status :: string

record Attachment =
  uri :: string
  type_att :: string
  caption :: "string option"

record Signature =
  name_sig :: string
  role :: "string option"
  signedAt :: string
  signatureImageUri :: "string option"

record Signatures =
  reporter :: "Signature option"
  investigator :: "Signature option"
  witness :: "Signature option"

record RIDDORAssessment =
  isReportable :: bool
  reportedToHSE :: bool

record IncidentReport =
  referenceCode :: string
  category :: "string option"
  dateOfIncident :: "string option"
  timeOfIncident :: "string option"
  location :: IncidentLocation
  reportedBy :: "ReportingPerson option"
  witnesses :: "Witness list option"
  personInvolved :: "PersonInvolved option"
  injuryDetails :: "InjuryDetails option"
  propertyDamageDetails :: "PropertyDamageDetails option"
  vehicleDetails :: "VehicleDetails option"
  publicLiabilityDetails :: "PublicLiabilityDetails option"
  incidentDescription :: "IncidentDescription option"
  rootCauseAnalysis :: "RootCauseAnalysis option"
  correctiveActions :: "CorrectiveAction list option"
  attachments :: "Attachment list option"
  signatures :: "Signatures option"
  riddorAssessment :: "RIDDORAssessment option"

record PdfExportOptions =
  summaryOnly :: bool
  includePhotos :: bool
  includeSignatures :: bool
  includeRootCause :: bool
  includeCorrectiveActions :: bool
  includeWitnessStatements :: bool
  includeAttachments :: bool

record ValidationError =
  field :: string
  message :: string
  section_ve :: "string option"

record ValidationResult =
  valid :: bool
  errors :: "ValidationError list"
  warnings :: "ValidationError list"

text \<open>
  What the code takes from its runtime: the \<^verbatim>\<open>Date\<close> object (parsing a date string to
  milliseconds, \<open>None\<close> for an invalid date; the end of the current day,
  \<^verbatim>\<open>today.setHours(23, 59, 59, 999)\<close>; the day/month/year rendering of
  \<^verbatim>\<open>formatDateUK\<close>), the rendering of numbers and \<^verbatim>\<open>toUpperCase\<close>.
\<close>

record platform =
  parse_date :: "string \<Rightarrow> int option"
  end_of_today :: int
  date_uk :: "string \<Rightarrow> string"
  today_uk :: string
  number_to_string :: "real \<Rightarrow> string"
  to_fixed :: "nat \<Rightarrow> real \<Rightarrow> string"
  to_upper :: "string \<Rightarrow> string"

text \<open>\<^verbatim>\<open>new Date(d) > today\<close>: a comparison with an invalid date is false.\<close>

definition date_in_future :: "'a platform_scheme \<Rightarrow> string \<Rightarrow> bool" where
  "date_in_future p d = (case parse_date p d of None \<Rightarrow> False | Some t \<Rightarrow> t > end_of_today p)"

abbreviation finding :: "string \<Rightarrow> string \<Rightarrow> string \<Rightarrow> ValidationError" where
  "finding f m s \<equiv> \<lparr>field = f, message = m, section_ve = Some s\<rparr>"

section \<open>Validation\<close>

text \<open>
  \<^verbatim>\<open>shared/src/validation/index.ts\<close>. Each function of the source fills a local array with
  \<^verbatim>\<open>errors.push\<close> under a condition and returns it; here each push is a list of
  one or no finding, and the lists are appended in the order of the source.
\<close>

definition validateBasicInfo :: "'a platform_scheme \<Rightarrow> IncidentReport \<Rightarrow> ValidationError list" where
  "validateBasicInfo p incident =
     (if \<not> truthy (category incident)
      then [finding ''category'' ''Incident category is required'' ''Basic Information'']
      else [])
   @ (case dateOfIncident incident of
        None \<Rightarrow> [finding ''dateOfIncident'' ''Date of incident is required'' ''Basic Information'']
      | Some d \<Rightarrow>
          if d = [] then
            [finding ''dateOfIncident'' ''Date of incident is required'' ''Basic Information'']
          else if date_in_future p d then
            [finding ''dateOfIncident'' ''Incident date cannot be in the future''
               ''Basic Information'']
          else [])
   @ (case timeOfIncident incident of
        None \<Rightarrow> [finding ''timeOfIncident'' ''Time of incident is required'' ''Basic Information'']
      | Some t \<Rightarrow>
          if t = [] then
            [finding ''timeOfIncident'' ''Time of incident is required'' ''Basic Information'']
          else if \<not> rx_test timeRegex t then
            [finding ''timeOfIncident'' ''Time must be in HH:mm format (24-hour)''
               ''Basic Information'']
          else [])
   @ (if gpsCoordinates (location incident) = None \<and> \<not> truthy (manualAddress (location incident))
      then [finding ''location'' ''Location is required (GPS or manual address)''
              ''Basic Information'']
      else [])
   @ (case Option.bind (incidentDescription incident) whatHappened of
        None \<Rightarrow> [finding ''incidentDescription.whatHappened'' ''Incident description is required''
                   ''Incident Description'']
      | Some w \<Rightarrow>
          if w = [] \<or> trim w = [] then
            [finding ''incidentDescription.whatHappened'' ''Incident description is required''
               ''Incident Description'']
          else if length w < 20 then
            [finding ''incidentDescription.whatHappened''
               ''Incident description must be at least 20 characters'' ''Incident Description'']
          else [])
   @ (if missing (Option.bind (reportedBy incident) name_rp)
      then [finding ''reportedBy.name'' ''Reporter name is required'' ''Basic Information'']
      else [])"

definition validatePersonalInjury :: "IncidentReport \<Rightarrow> ValidationError list" where
  "validatePersonalInjury incident =
     (if missing (Option.bind (personInvolved incident) fullName)
      then [finding ''personInvolved.fullName'' ''Injured person's name is required''
              ''Person Involved'']
      else [])
   @ (if missing (Option.bind (injuryDetails incident) natureOfInjury)
      then [finding ''injuryDetails.natureOfInjury'' ''Nature of injury is required''
              ''Injury Details'']
      else [])
   @ (if \<not> truthy (Option.bind (injuryDetails incident) severity)
      then [finding ''injuryDetails.severity'' ''Injury severity is required'' ''Injury Details'']
      else [])
   @ (case Option.bind (injuryDetails incident) bodyPartsAffected of
        None \<Rightarrow> [finding ''injuryDetails.bodyPartsAffected''
                   ''At least one affected body part must be selected'' ''Injury Details'']
      | Some parts \<Rightarrow>
          if length parts = 0 then
            [finding ''injuryDetails.bodyPartsAffected''
               ''At least one affected body part must be selected'' ''Injury Details'']
          else [])
   @ (if Option.bind (injuryDetails incident) ppeUsed = None
      then [finding ''injuryDetails.ppeUsed'' ''PPE usage information is required''
              ''Injury Details'']
      else [])"

definition validatePublicLiability :: "IncidentReport \<Rightarrow> ValidationError list" where
  "validatePublicLiability incident =
     (if missing (Option.bind (personInvolved incident) fullName)
      then [finding ''personInvolved.fullName'' ''Name of public member is required''
              ''Person Involved'']
      else [])
   @ (if missing (Option.bind (publicLiabilityDetails incident) reasonForBeingOnSite)
      then [finding ''publicLiabilityDetails.reasonForBeingOnSite''
              ''Reason for being on site is required'' ''Public Liability Details'']
      else [])
   @ (if truthy (Option.bind (injuryDetails incident) natureOfInjury)
         \<and> \<not> truthy (Option.bind (injuryDetails incident) severity)
      then [finding ''injuryDetails.severity''
              ''Injury severity is required when injury is reported'' ''Injury Details'']
      else [])"

definition validatePropertyDamage :: "IncidentReport \<Rightarrow> ValidationError list" where
  "validatePropertyDamage incident =
     (if missing (Option.bind (propertyDamageDetails incident) assetDescription)
      then [finding ''propertyDamageDetails.assetDescription''
              ''Description of damaged property is required'' ''Property Damage Details'']
      else [])
   @ (if missing (Option.bind (propertyDamageDetails incident) extentOfDamage)
      then [finding ''propertyDamageDetails.extentOfDamage'' ''Extent of damage is required''
              ''Property Damage Details'']
      else [])
   @ (if missing (Option.bind (propertyDamageDetails incident) assetType)
      then [finding ''propertyDamageDetails.assetType'' ''Asset type is required''
              ''Property Damage Details'']
      else [])
   @ (if Option.bind (propertyDamageDetails incident) urgentRepairRequired = None
      then [finding ''propertyDamageDetails.urgentRepairRequired''
              ''Please indicate if urgent repair is required'' ''Property Damage Details'']
      else [])"

definition validateVehicleIncident :: "IncidentReport \<Rightarrow> ValidationError list" where
  "validateVehicleIncident incident =
     (case Option.bind (vehicleDetails incident) registration of
        None \<Rightarrow> [finding ''vehicleDetails.registration'' ''Vehicle registration is required''
                   ''Vehicle Details'']
      | Some reg \<Rightarrow>
          if reg = [] \<or> trim reg = [] then
            [finding ''vehicleDetails.registration'' ''Vehicle registration is required''
               ''Vehicle Details'']
          else if \<not> rx_test ukRegRegex (strip_spaces reg) then
            [finding ''vehicleDetails.registration''
               ''Please enter a valid UK vehicle registration'' ''Vehicle Details'']
          else [])
   @ (if missing (Option.bind (vehicleDetails incident) driverName)
      then [finding ''vehicleDetails.driverName'' ''Driver name is required'' ''Vehicle Details'']
      else [])
   @ (if Option.bind (vehicleDetails incident) companyVehicle = None
      then [finding ''vehicleDetails.companyVehicle''
              ''Please indicate if this is a company vehicle'' ''Vehicle Details'']
      else [])
   @ (if Option.bind (vehicleDetails incident) policeNotified = None
      then [finding ''vehicleDetails.policeNotified''
              ''Please indicate if police were notified'' ''Vehicle Details'']
      else [])
   @ (if Option.bind (vehicleDetails incident) policeNotified = Some True
         \<and> missing (Option.bind (vehicleDetails incident) policeReferenceNumber)
      then [finding ''vehicleDetails.policeReferenceNumber''
              ''Police reference number is strongly recommended when police are notified''
              ''Vehicle Details'']
      else [])"

text \<open>The callback of \<^verbatim>\<open>correctiveActions.forEach((action, index) => ...)\<close>.\<close>

definition validateCorrectiveAction :: "nat \<times> CorrectiveAction \<Rightarrow> ValidationError list" where
  "validateCorrectiveAction ia =
     (case ia of (index, action) \<Rightarrow>
        (if missing (description action)
         then [finding (''correctiveActions['' @ show_nat index @ ''].description'')
                 (''Corrective action '' @ show_nat (index + 1) @ '': Description is required'')
                 ''Corrective Actions'']
         else [])
      @ (if missing (responsiblePerson action)
         then [finding (''correctiveActions['' @ show_nat index @ ''].responsiblePerson'')
                 (''Corrective action '' @ show_nat (index + 1)
                    @ '': Responsible person is required'')
                 ''Corrective Actions'']
         else []))"

definition validateInvestigationFields :: "IncidentReport \<Rightarrow> ValidationError list" where
  "validateInvestigationFields incident =
     (if missing (Option.bind (rootCauseAnalysis incident) directCause)
      then [finding ''rootCauseAnalysis.directCause''
              ''Direct cause is required for investigation report'' ''Root Cause Analysis'']
      else [])
   @ (if missing (Option.bind (rootCauseAnalysis incident) underlyingRootCause)
      then [finding ''rootCauseAnalysis.underlyingRootCause''
              ''Underlying root cause is required for investigation report''
              ''Root Cause Analysis'']
      else [])
   @ (if \<not> truthy (Option.bind (rootCauseAnalysis incident) wereControlsAdequate)
      then [finding ''rootCauseAnalysis.wereControlsAdequate''
              ''Assessment of existing controls is required'' ''Root Cause Analysis'']
      else [])
   @ (case correctiveActions incident of
        None \<Rightarrow> [finding ''correctiveActions''
                   ''At least one corrective action is required for investigation report''
                   ''Corrective Actions'']
      | Some actions \<Rightarrow>
          if length actions = 0 then
            [finding ''correctiveActions''
               ''At least one corrective action is required for investigation report''
               ''Corrective Actions'']
          else concat (map validateCorrectiveAction (enumerate 0 actions)))"

text \<open>The callback of \<^verbatim>\<open>witnesses.forEach((witness, index) => ...)\<close>.\<close>

definition witnessWarning :: "nat \<times> Witness \<Rightarrow> ValidationError list" where
  "witnessWarning iw =
     (case iw of (index, w) \<Rightarrow>
        if missing (statement w)
        then [finding (''witnesses['' @ show_nat index @ ''].statement'')
                (''Witness '' @ show_nat (index + 1) @ '': Statement is recommended'')
                ''Witnesses'']
        else [])"

text \<open>
  The last test of \<^verbatim>\<open>generateWarnings\<close> is written
  \<^verbatim>\<open>category === 'personal_injury' && severity === 'severe' || severity === 'fatal'\<close>:
  \<^verbatim>\<open>&&\<close> binds tighter than \<^verbatim>\<open>||\<close>.
\<close>

definition generateWarnings :: "IncidentReport \<Rightarrow> ValidationError list" where
  "generateWarnings incident =
     (case Option.bind (reportedBy incident) email of
        None \<Rightarrow> []
      | Some e \<Rightarrow>
          if e \<noteq> [] \<and> \<not> isValidEmail e
          then [finding ''reportedBy.email'' ''Email format appears invalid''
                  ''Basic Information'']
          else [])
   @ (case Option.bind (reportedBy incident) contactNumber of
        None \<Rightarrow> []
      | Some n \<Rightarrow>
          if n \<noteq> [] \<and> \<not> isValidUKPhone n
          then [finding ''reportedBy.contactNumber'' ''Phone number format appears invalid''
                  ''Basic Information'']
          else [])
   @ (case witnesses incident of
        None \<Rightarrow> []
      | Some ws \<Rightarrow>
          if length ws > 0 then concat (map witnessWarning (enumerate 0 ws)) else [])
   @ (case attachments incident of
        None \<Rightarrow> [finding ''attachments'' ''Consider adding photos or other evidence''
                   ''Attachments'']
      | Some as \<Rightarrow>
          if length as = 0
          then [finding ''attachments'' ''Consider adding photos or other evidence''
                  ''Attachments'']
          else [])
   @ (if (category incident = Some ''personal_injury''
            \<and> Option.bind (injuryDetails incident) severity = Some ''severe'')
          \<or> Option.bind (injuryDetails incident) severity = Some ''fatal''
      then (if riddorAssessment incident = None
            then [finding ''riddorAssessment''
                    ''Serious injury may be RIDDOR reportable - ensure HSE notification is considered''
                    ''Legal Compliance'']
            else [])
      else [])"

definition validateIncident :: "'a platform_scheme \<Rightarrow> IncidentReport \<Rightarrow> ValidationResult" where
  "validateIncident p incident =
     (let errors =
            validateBasicInfo p incident
          @ (if category incident = Some ''personal_injury'' then validatePersonalInjury incident
             else if category incident = Some ''public_liability''
               then validatePublicLiability incident
             else if category incident = Some ''property_damage''
               then validatePropertyDamage incident
             else if category incident = Some ''vehicle_incident''
               then validateVehicleIncident incident
             else []);
          warnings = generateWarnings incident
      in \<lparr>valid = (length errors = 0), errors = errors, warnings = warnings\<rparr>)"

definition validateIncidentForPDF ::
  "'a platform_scheme \<Rightarrow> IncidentReport \<Rightarrow> PdfExportOptions \<Rightarrow> ValidationResult" where
  "validateIncidentForPDF p incident options =
     (let basicValidation = validateIncident p incident;
          errors =
            errors basicValidation
          @ (if \<not> summaryOnly options then validateInvestigationFields incident else [])
          @ (if includeSignatures options then
               (if Option.bind (signatures incident) reporter = None
                then [finding ''signatures.reporter''
                        ''Reporter signature is required for PDF export'' ''Signatures'']
                else [])
             @ (if \<not> summaryOnly options \<and> Option.bind (signatures incident) investigator = None
                then [finding ''signatures.investigator''
                        ''Investigator signature is required for full investigation PDF''
                        ''Signatures'']
                else [])
             else [])
          @ (if includePhotos options
                \<and> (case attachments incident of
                      None \<Rightarrow> True
                    | Some as \<Rightarrow> length (filter (\<lambda>a. type_att a = ''photo'') as) = 0)
             then [finding ''attachments'' ''No photos available to include in PDF''
                     ''Attachments'']
             else [])
      in \<lparr>valid = (length errors = 0), errors = errors, warnings = warnings basicValidation\<rparr>)"

section \<open>Mapping a record to the document model\<close>

text \<open>
  \<^verbatim>\<open>pdf-builder.ts\<close>. Reading a property of \<^verbatim>\<open>undefined\<close> throws a
  \<^verbatim>\<open>TypeError\<close>; the mapper returns \<open>Inl TypeError\<close> where the source would, so
  the non-null assertions (\<^verbatim>\<open>incident.injuryDetails!\<close>) and the unguarded method
  calls (\<^verbatim>\<open>injury.severity.toUpperCase()\<close>) are branches of the model.

  The value of a row is declared a string, but the mapper stores what it reads: a string,
  \<^verbatim>\<open>undefined\<close> for an absent field, or, from the lookup of a category label, a
  member that the table of labels inherits from \<^verbatim>\<open>Object.prototype\<close> (a function or
  an object, named here by its key).
\<close>

datatype js_error = TypeError

datatype js_value = Undefined | Str string | Inherited string

fun js_of :: "string option \<Rightarrow> js_value" where
  "js_of None = Undefined"
| "js_of (Some s) = Str s"

definition bind_js :: "js_error + 'a \<Rightarrow> ('a \<Rightarrow> js_error + 'b) \<Rightarrow> js_error + 'b" where
  "bind_js x f = (case x of Inl e \<Rightarrow> Inl e | Inr v \<Rightarrow> f v)"

type_synonym row = "string \<times> js_value"

record PdfSection =
  title_sec :: string
  rows_sec :: "row list"

record PdfTableSection =
  title_tab :: string
  headers :: "string list"
  rows_tab :: "js_value list list"

record PdfAttachmentSection =
  title_att :: string
  attachments_att :: "(string \<times> string option) list"

record PdfSignatureSection =
  title_sigs :: string
  signatures_sigs :: "(string \<times> string option \<times> string \<times> string option) list"

record PdfIncidentModel =
  title_pdf :: string
  referenceCode_pdf :: string
  categoryLabel :: js_value
  exportDate :: string
  headerFields :: "(string \<times> js_value) list"
  sections :: "PdfSection list"
  rootCauseSection :: "PdfSection option"
  correctiveActionsSection :: "PdfTableSection option"
  attachmentsSection :: "PdfAttachmentSection option"
  signaturesSection :: "PdfSignatureSection option"

text \<open>\<^verbatim>\<open>shared/src/utils/index.ts\<close>\<close>

definition formatDateUK :: "'a platform_scheme \<Rightarrow> string option \<Rightarrow> js_error + string" where
  "formatDateUK p date = (case date of None \<Rightarrow> Inl TypeError | Some s \<Rightarrow> Inr (date_uk p s))"

definition formatTimeUK :: "string option \<Rightarrow> js_error + string" where
  "formatTimeUK time =
     (case time of
        None \<Rightarrow> Inl TypeError
      | Some t \<Rightarrow> if CHR '':'' \<in> set t then Inr t else Inr t)"

text \<open>
  The keys that every object literal inherits from \<^verbatim>\<open>Object.prototype\<close>. Each names a
  function, or for \<^verbatim>\<open>__proto__\<close> the prototype itself: a truthy value that is not a
  string.
\<close>

definition object_prototype_keys :: "string list" where
  "object_prototype_keys =
     [''constructor'', ''hasOwnProperty'', ''isPrototypeOf'', ''propertyIsEnumerable'',
      ''toLocaleString'', ''toString'', ''valueOf'', ''__proto__'', ''__defineGetter__'',
      ''__defineSetter__'', ''__lookupGetter__'', ''__lookupSetter__'']"

text \<open>
  \<^verbatim>\<open>labels[category] || category\<close>: the label of the table, else the inherited
  member under that key, else the category itself.
\<close>

definition getCategoryLabel :: "string option \<Rightarrow> js_value" where
  "getCategoryLabel c =
     (case c of
        None \<Rightarrow> Undefined
      | Some k \<Rightarrow>
          (case map_of [(''personal_injury'', ''Personal Injury''),
                        (''property_damage'', ''Property Damage''),
                        (''vehicle_incident'', ''Vehicle Incident''),
                        (''public_liability'', ''Public Liability'')] k of
             Some l \<Rightarrow> Str l
           | None \<Rightarrow> if k \<in> set object_prototype_keys then Inherited k else Str k))"

definition yes_no :: "bool \<Rightarrow> js_value" where
  "yes_no b = Str (if b then ''Yes'' else ''No'')"

text \<open>\<^verbatim>\<open>x || 'N/A'\<close>\<close>

definition or_na :: "string option \<Rightarrow> js_value" where
  "or_na x = Str (or_else x ''N/A'')"

definition formatLocation :: "'a platform_scheme \<Rightarrow> IncidentReport \<Rightarrow> string" where
  "formatLocation p incident =
     or_else (manualAddress (location incident))
       (case gpsCoordinates (location incident) of
          Some g \<Rightarrow> ''GPS: '' @ to_fixed p 6 (latitude g) @ '', '' @ to_fixed p 6 (longitude g)
        | None \<Rightarrow> ''Not specified'')"

definition incidentInformationSection ::
  "'a platform_scheme \<Rightarrow> IncidentReport \<Rightarrow> js_error + PdfSection" where
  "incidentInformationSection p incident =
     bind_js (formatDateUK p (dateOfIncident incident)) (\<lambda>date.
     bind_js (formatTimeUK (timeOfIncident incident)) (\<lambda>time.
       Inr \<lparr>title_sec = ''Incident Information'',
            rows_sec =
              [(''Incident Reference'', Str (referenceCode incident)),
               (''Category'', getCategoryLabel (category incident)),
               (''Date of Incident'', Str date),
               (''Time of Incident'', Str time),
               (''Location'', Str (formatLocation p incident)),
               (''Site Name'', or_na (siteName (location incident))),
               (''Department'', or_na (department (location incident))),
               (''Area'', or_na (area (location incident)))]\<rparr>))"

definition reportedBySection :: "IncidentReport \<Rightarrow> js_error + PdfSection" where
  "reportedBySection incident =
     (case reportedBy incident of
        None \<Rightarrow> Inl TypeError
      | Some rb \<Rightarrow>
          Inr \<lparr>title_sec = ''Reported By'',
               rows_sec =
                 [(''Name'', js_of (name_rp rb)),
                  (''Job Title'', or_na (jobTitle rb)),
                  (''Contact Number'', or_na (contactNumber rb)),
                  (''Email'', or_na (email rb)),
                  (''Employer'', or_na (employer_rp rb))]\<rparr>)"

definition personInvolvedSection :: "'a platform_scheme \<Rightarrow> PersonInvolved \<Rightarrow> PdfSection" where
  "personInvolvedSection p person =
     \<lparr>title_sec = ''Person Involved'',
      rows_sec =
        [(''Full Name'', js_of (fullName person)),
         (''Age'', or_na (map_option (number_to_string p) (age person))),
         (''Role/Relationship'', or_na (Some (roleOrRelationship person))),
         (''Employer'', or_na (employer_pi person)),
         (''Contact Details'', or_na (contactDetails_pi person)),
         (''Relevant Training'',
            yes_no (case relevantTraining person of None \<Rightarrow> False | Some t \<Rightarrow> hasTraining t))]\<rparr>"

definition buildInjuryDetailsSection ::
  "'a platform_scheme \<Rightarrow> IncidentReport \<Rightarrow> js_error + PdfSection" where
  "buildInjuryDetailsSection p incident =
     (case injuryDetails incident of
        None \<Rightarrow> Inl TypeError
      | Some injury \<Rightarrow>
          (case bodyPartsAffected injury of
             None \<Rightarrow> Inl TypeError
           | Some parts \<Rightarrow>
               (case severity injury of
                  None \<Rightarrow> Inl TypeError
                | Some sev \<Rightarrow>
                    Inr \<lparr>title_sec = ''Injury Details'',
                         rows_sec =
                           [(''Nature of Injury'', js_of (natureOfInjury injury)),
                            (''Body Parts Affected'', Str (join_comma parts)),
                            (''Severity'', Str (to_upper p sev)),
                            (''First Aid Given'',
                               yes_no (case firstAidGiven injury of
                                         None \<Rightarrow> False | Some f \<Rightarrow> given f)),
                            (''First Aid Details'',
                               or_na (Option.bind (firstAidGiven injury) treatment)),
                            (''Hospital Visit'',
                               yes_no (case hospitalVisit injury of
                                         None \<Rightarrow> False | Some h \<Rightarrow> wentToHospital h)),
                            (''Hospital Name'',
                               or_na (Option.bind (hospitalVisit injury) hospitalName)),
                            (''Expected Lost Time (days)'',
                               or_na (map_option (number_to_string p)
                                        (expectedLostTimeDays injury))),
                            (''PPE Used'',
                               yes_no (case ppeUsed injury of None \<Rightarrow> False | Some u \<Rightarrow> used u)),
                            (''PPE Types'',
                               or_na (map_option join_comma (Option.bind (ppeUsed injury) types))),
                            (''PPE Functioning Properly'',
                               yes_no (Option.bind (ppeUsed injury) functioningProperly
                                         = Some True))]\<rparr>)))"

definition buildPropertyDamageSection ::
  "'a platform_scheme \<Rightarrow> IncidentReport \<Rightarrow> js_error + PdfSection" where
  "buildPropertyDamageSection p incident =
     (case propertyDamageDetails incident of
        None \<Rightarrow> Inl TypeError
      | Some damage \<Rightarrow>
          Inr \<lparr>title_sec = ''Property Damage Details'',
               rows_sec =
                 [(''Asset Type'', js_of (assetType damage)),
                  (''Description'', js_of (assetDescription damage)),
                  (''Asset ID/Serial'', or_na (assetIdOrSerial damage)),
                  (''Extent of Damage'', js_of (extentOfDamage damage)),
                  (''Estimated Cost'',
                     (case estimatedCost damage of
                        None \<Rightarrow> Str ''N/A''
                      | Some c \<Rightarrow>
                          if c \<noteq> 0 then Str (CHR 0xA3 # to_fixed p 2 c) else Str ''N/A'')),
                  (''Urgent Repair Required'',
                     yes_no (urgentRepairRequired damage = Some True)),
                  (''Condition Before Incident'', Str (conditionBeforeIncident damage))]\<rparr>)"

definition buildVehicleDetailsSection ::
  "'a platform_scheme \<Rightarrow> IncidentReport \<Rightarrow> js_error + PdfSection" where
  "buildVehicleDetailsSection p incident =
     (case vehicleDetails incident of
        None \<Rightarrow> Inl TypeError
      | Some vehicle \<Rightarrow>
          Inr \<lparr>title_sec = ''Vehicle Incident Details'',
               rows_sec =
                 [(''Vehicle Registration'', js_of (registration vehicle)),
                  (''Make/Model'', or_na (makeModel vehicle)),
                  (''Company Vehicle'', yes_no (companyVehicle vehicle = Some True)),
                  (''Driver Name'', js_of (driverName vehicle)),
                  (''Driver Licence Number'', or_na (driverLicenceNumber vehicle)),
                  (''Police Notified'', yes_no (policeNotified vehicle = Some True)),
                  (''Police Reference'', or_na (policeReferenceNumber vehicle)),
                  (''Road Conditions'', or_na (roadConditions vehicle)),
                  (''Weather Conditions'', or_na (weatherConditions vehicle)),
                  (''Approximate Speed'',
                     (case approximateSpeedKmh vehicle of
                        None \<Rightarrow> Str ''N/A''
                      | Some v \<Rightarrow>
                          if v \<noteq> 0 then Str (number_to_string p v @ '' km/h'')
                          else Str ''N/A''))]\<rparr>)"

definition buildPublicLiabilitySection :: "IncidentReport \<Rightarrow> js_error + PdfSection" where
  "buildPublicLiabilitySection incident =
     (case publicLiabilityDetails incident of
        None \<Rightarrow> Inl TypeError
      | Some liability \<Rightarrow>
          Inr \<lparr>title_sec = ''Public Liability Details'',
               rows_sec =
                 [(''Reason for Being On Site'', js_of (reasonForBeingOnSite liability)),
                  (''Authorized Visitor'', yes_no (authorizedVisitor liability)),
                  (''Signed In'', yes_no (signedIn liability)),
                  (''Pre-existing Conditions'',
                     Str (or_else (preExistingConditions liability) ''None reported'')),
                  (''Refused Treatment'', yes_no (refusedTreatment liability))]\<rparr>)"

definition buildIncidentDescriptionSection :: "IncidentReport \<Rightarrow> js_error + PdfSection" where
  "buildIncidentDescriptionSection incident =
     (case incidentDescription incident of
        None \<Rightarrow> Inl TypeError
      | Some desc \<Rightarrow>
          Inr \<lparr>title_sec = ''Incident Description'',
               rows_sec =
                 [(''What Happened'', js_of (whatHappened desc)),
                  (''Sequence of Events'', or_na (sequenceOfEvents desc)),
                  (''Activity at Time'', or_na (activityAtTime desc)),
                  (''Immediate Cause'', or_na (immediateCause desc)),
                  (''Unsafe Conditions'', or_na (unsafeConditions desc)),
                  (''Unsafe Acts'', or_na (unsafeActs desc)),
                  (''Environmental Factors'', or_na (environmentalFactors desc)),
                  (''Equipment Factors'', or_na (equipmentFactors desc)),
                  (''Supervision Present'', Str (supervisionPresent desc)),
                  (''Area Previously Inspected'', Str (areaPreviouslyInspected desc))]\<rparr>)"

definition buildRootCauseSection :: "IncidentReport \<Rightarrow> js_error + PdfSection" where
  "buildRootCauseSection incident =
     (case rootCauseAnalysis incident of
        None \<Rightarrow> Inl TypeError
      | Some rca \<Rightarrow>
          Inr \<lparr>title_sec = ''Root Cause Analysis'',
               rows_sec =
                 [(''Direct Cause'', or_na (directCause rca)),
                  (''Indirect Cause'', or_na (indirectCause rca)),
                  (''Underlying Root Cause'', or_na (underlyingRootCause rca)),
                  (''Contributing Factors'',
                     or_na (map_option join_comma (contributingFactors rca))),
                  (''Preventative Measures'', or_na (preventativeMeasures rca)),
                  (''Were Controls Adequate'', js_of (wereControlsAdequate rca)),
                  (''Controls Explanation'', or_na (controlsExplanation rca))]\<rparr>)"

text \<open>The callback of \<^verbatim>\<open>witnesses!.forEach((witness, index) => ...)\<close>.\<close>

definition witnessRows :: "nat \<times> Witness \<Rightarrow> row list" where
  "witnessRows iw =
     (case iw of (index, w) \<Rightarrow>
        [(''Witness '' @ show_nat (index + 1) @ '' Name'', Str (name_w w)),
         (''Witness '' @ show_nat (index + 1) @ '' Contact'', or_na (contactDetails_w w)),
         (''Witness '' @ show_nat (index + 1) @ '' Statement'',
            Str (or_else (statement w) ''No statement provided''))])"

definition buildWitnessesSection :: "IncidentReport \<Rightarrow> js_error + PdfSection" where
  "buildWitnessesSection incident =
     (case witnesses incident of
        None \<Rightarrow> Inl TypeError
      | Some ws \<Rightarrow>
          Inr \<lparr>title_sec = ''Witness Information'',
               rows_sec = concat (map witnessRows (enumerate 0 ws))\<rparr>)"

definition correctiveActionRow :: "'a platform_scheme \<Rightarrow> CorrectiveAction \<Rightarrow> js_value list" where
  "correctiveActionRow p action =
     [js_of (description action),
      Str (or_else (responsiblePerson action) ''Unassigned''),
      (case dueDate action of
         None \<Rightarrow> Str ''N/A''
       | Some d \<Rightarrow> if d \<noteq> [] then Str (date_uk p d) else Str ''N/A''),
      Str (to_upper p (status action))]"

definition buildCorrectiveActionsTable ::
  "'a platform_scheme \<Rightarrow> IncidentReport \<Rightarrow> js_error + PdfTableSection" where
  "buildCorrectiveActionsTable p incident =
     (case correctiveActions incident of
        None \<Rightarrow> Inl TypeError
      | Some actions \<Rightarrow>
          Inr \<lparr>title_tab = ''Corrective Actions'',
               headers = [''Action'', ''Responsible Person'', ''Due Date'', ''Status''],
               rows_tab = map (correctiveActionRow p) actions\<rparr>)"

definition signatureEntry ::
  "'a platform_scheme \<Rightarrow> Signature \<Rightarrow> string option
     \<Rightarrow> string \<times> string option \<times> string \<times> string option" where
  "signatureEntry p sig r = (name_sig sig, r, date_uk p (signedAt sig), signatureImageUri sig)"

definition buildSignaturesSection ::
  "'a platform_scheme \<Rightarrow> IncidentReport \<Rightarrow> js_error + PdfSignatureSection" where
  "buildSignaturesSection p incident =
     (case signatures incident of
        None \<Rightarrow> Inl TypeError
      | Some sigs \<Rightarrow>
          Inr \<lparr>title_sigs = ''Signatures'',
               signatures_sigs =
                 (case reporter sigs of
                    None \<Rightarrow> []
                  | Some s \<Rightarrow> [signatureEntry p s (Some (or_else (role s) ''Reporter''))])
               @ (case investigator sigs of
                    None \<Rightarrow> []
                  | Some s \<Rightarrow> [signatureEntry p s (Some (or_else (role s) ''Investigator''))])
               @ (case witness sigs of
                    None \<Rightarrow> []
                  | Some s \<Rightarrow> [signatureEntry p s (Some ''Witness'')])\<rparr>)"

text \<open>A section that is pushed only under a condition: one section, or none.\<close>

definition section_if :: "bool \<Rightarrow> js_error + PdfSection \<Rightarrow> js_error + PdfSection list" where
  "section_if b s = (if b then bind_js s (\<lambda>x. Inr [x]) else Inr [])"

definition optional_if :: "bool \<Rightarrow> js_error + 'a \<Rightarrow> js_error + 'a option" where
  "optional_if b s = (if b then bind_js s (\<lambda>x. Inr (Some x)) else Inr None)"

definition mapIncidentToPdfModel ::
  "'a platform_scheme \<Rightarrow> IncidentReport \<Rightarrow> PdfExportOptions \<Rightarrow> js_error + PdfIncidentModel" where
  "mapIncidentToPdfModel p incident options =
     bind_js (incidentInformationSection p incident) (\<lambda>info.
     bind_js (reportedBySection incident) (\<lambda>reported.
     bind_js (section_if (category incident = Some ''personal_injury''
                            \<and> injuryDetails incident \<noteq> None)
                (buildInjuryDetailsSection p incident)) (\<lambda>injury.
     bind_js (section_if (category incident = Some ''property_damage''
                            \<and> propertyDamageDetails incident \<noteq> None)
                (buildPropertyDamageSection p incident)) (\<lambda>damage.
     bind_js (section_if (category incident = Some ''vehicle_incident''
                            \<and> vehicleDetails incident \<noteq> None)
                (buildVehicleDetailsSection p incident)) (\<lambda>vehicle.
     bind_js (section_if (category incident = Some ''public_liability''
                            \<and> publicLiabilityDetails incident \<noteq> None)
                (buildPublicLiabilitySection incident)) (\<lambda>liability.
     bind_js (buildIncidentDescriptionSection incident) (\<lambda>desc.
     bind_js (section_if (case witnesses incident of None \<Rightarrow> False | Some ws \<Rightarrow> length ws > 0)
                (buildWitnessesSection incident)) (\<lambda>wits.
     bind_js (formatDateUK p (dateOfIncident incident)) (\<lambda>date.
     bind_js (optional_if (\<not> summaryOnly options \<and> includeRootCause options
                             \<and> rootCauseAnalysis incident \<noteq> None)
                (buildRootCauseSection incident)) (\<lambda>rootCause.
     bind_js (optional_if (\<not> summaryOnly options \<and> includeCorrectiveActions options
                             \<and> correctiveActions incident \<noteq> None)
                (buildCorrectiveActionsTable p incident)) (\<lambda>actions.
     bind_js (optional_if (includeSignatures options \<and> signatures incident \<noteq> None)
                (buildSignaturesSection p incident)) (\<lambda>sigs.
       Inr \<lparr>title_pdf = (if summaryOnly options then ''Incident Summary Report''
                         else ''Full Incident Investigation Report''),
            referenceCode_pdf = referenceCode incident,
            categoryLabel = getCategoryLabel (category incident),
            exportDate = today_uk p,
            headerFields =
              [(''reference'', Str (referenceCode incident)),
               (''date'', Str date),
               (''category'', getCategoryLabel (category incident))],
            sections =
              [info, reported]
              @ (case personInvolved incident of
                   None \<Rightarrow> []
                 | Some person \<Rightarrow> [personInvolvedSection p person])
              @ injury @ damage @ vehicle @ liability @ [desc] @ wits,
            rootCauseSection = rootCause,
            correctiveActionsSection = actions,
            attachmentsSection =
              (case attachments incident of
                 None \<Rightarrow> None
               | Some as \<Rightarrow>
                   if includeAttachments options \<and> length as > 0
                   then Some \<lparr>title_att = ''Attachments'',
                              attachments_att = map (\<lambda>a. (uri a, caption a)) as\<rparr>
                   else None),
            signaturesSection = sigs\<rparr>))))))))))))"

section \<open>Page flow\<close>

text \<open>
  The layout functions of \<^verbatim>\<open>pdf-builder.ts\<close> draw on a \<^verbatim>\<open>PDFDocument\<close> and return the
  new cursor. The document is the list of the calls that place something, in the order they
  are made: \<open>AddPage\<close> for \<^verbatim>\<open>doc.addPage()\<close> and \<open>Text t x y\<close> for
  \<^verbatim>\<open>doc.text(t, x, y, ...)\<close>; the calls that set a font, a size or a colour place
  nothing and are left out. Lengths are reals, in points.
\<close>

datatype draw_op = AddPage | Text js_value real real

type_synonym doc = "draw_op list"

definition PAGE_WIDTH :: real where "PAGE_WIDTH = 595.28"
definition PAGE_HEIGHT :: real where "PAGE_HEIGHT = 841.89"
definition MARGIN_LEFT :: real where "MARGIN_LEFT = 50"
definition MARGIN_RIGHT :: real where "MARGIN_RIGHT = 50"
definition MARGIN_TOP :: real where "MARGIN_TOP = 50"
definition MARGIN_BOTTOM :: real where "MARGIN_BOTTOM = 50"
definition CONTENT_WIDTH :: real where "CONTENT_WIDTH = PAGE_WIDTH - MARGIN_LEFT - MARGIN_RIGHT"

text \<open>
  \<^verbatim>\<open>if (yPos > PAGE_HEIGHT - MARGIN_BOTTOM - reserve) { doc.addPage(); yPos = MARGIN_TOP; }\<close>
\<close>

definition new_page_check :: "real \<Rightarrow> doc \<times> real \<Rightarrow> doc \<times> real" where
  "new_page_check reserve dy =
     (case dy of (doc, yPos) \<Rightarrow>
        if yPos > PAGE_HEIGHT - MARGIN_BOTTOM - reserve then (doc @ [AddPage], MARGIN_TOP)
        else (doc, yPos))"

text \<open>The loop \<^verbatim>\<open>for (const row of section.rows)\<close> of \<^verbatim>\<open>addSection\<close>.\<close>

fun section_rows :: "doc \<Rightarrow> row list \<Rightarrow> real \<Rightarrow> doc \<times> real" where
  "section_rows doc [] yPos = (doc, yPos)"
| "section_rows doc (r # rs) yPos =
     (case new_page_check 50 (doc, yPos) of (doc1, y1) \<Rightarrow>
        section_rows
          (doc1 @ [Text (Str (fst r @ '':'')) MARGIN_LEFT y1,
                   Text (snd r) (MARGIN_LEFT + 150) y1])
          rs (y1 + 20))"

definition addSection :: "doc \<Rightarrow> PdfSection \<Rightarrow> real \<Rightarrow> doc \<times> real" where
  "addSection doc section yPos =
     (case new_page_check 100 (doc, yPos) of (doc1, y1) \<Rightarrow>
        (case section_rows (doc1 @ [Text (Str (title_sec section)) MARGIN_LEFT y1])
                (rows_sec section) (y1 + 25) of
           (doc2, y2) \<Rightarrow> (doc2, y2 + 15)))"

text \<open>
  \<^verbatim>\<open>cells.forEach(cell => { doc.text(cell, xPos, yPos, ...); xPos += colWidth; })\<close>
\<close>

fun draw_cells :: "doc \<Rightarrow> js_value list \<Rightarrow> real \<Rightarrow> real \<Rightarrow> real \<Rightarrow> doc" where
  "draw_cells doc [] xPos yPos colWidth = doc"
| "draw_cells doc (c # cs) xPos yPos colWidth =
     draw_cells (doc @ [Text c xPos yPos]) cs (xPos + colWidth) yPos colWidth"

text \<open>The loop \<^verbatim>\<open>for (const row of table.rows)\<close> of \<^verbatim>\<open>addTable\<close>.\<close>

fun table_rows :: "doc \<Rightarrow> js_value list list \<Rightarrow> real \<Rightarrow> real \<Rightarrow> doc \<times> real" where
  "table_rows doc [] colWidth yPos = (doc, yPos)"
| "table_rows doc (r # rs) colWidth yPos =
     (case new_page_check 30 (doc, yPos) of (doc1, y1) \<Rightarrow>
        table_rows (draw_cells doc1 r MARGIN_LEFT y1 colWidth) rs colWidth (y1 + 25))"

text \<open>
  The column width is \<^verbatim>\<open>CONTENT_WIDTH / table.headers.length\<close>. The one table of the
  mapper has four headers; for no header the source divides by zero and gets
  \<^verbatim>\<open>Infinity\<close>, which is not a real, so the horizontal positions say nothing there.
\<close>

definition addTable :: "doc \<Rightarrow> PdfTableSection \<Rightarrow> real \<Rightarrow> doc \<times> real" where
  "addTable doc table yPos =
     (case new_page_check 150 (doc, yPos) of (doc1, y1) \<Rightarrow>
        (let colWidth = CONTENT_WIDTH / real (length (headers table));
             doc2 = doc1 @ [Text (Str (title_tab table)) MARGIN_LEFT y1];
             doc3 = draw_cells doc2 (map Str (headers table)) MARGIN_LEFT (y1 + 25) colWidth
         in (case table_rows doc3 (rows_tab table) colWidth (y1 + 25 + 20) of
               (doc4, y4) \<Rightarrow> (doc4, y4 + 15))))"

section \<open>Vocabulary of the properties\<close>

text \<open>
  A string is blank when it consists of white space only (the empty string is blank); a
  value is set when it is present and not blank.
\<close>

definition blank :: "string \<Rightarrow> bool" where
  "blank s = list_all is_space s"

definition absent_or_blank :: "string option \<Rightarrow> bool" where
  "absent_or_blank x = (case x of None \<Rightarrow> True | Some s \<Rightarrow> blank s)"



section \<open>Example records\<close>

text \<open>
  A runtime whose clock reads 1 May 2024 (UTC) and that knows the date of the examples,
  and records of each kind, used to run the definitions on concrete input.
\<close>

definition upper_chr :: "char \<Rightarrow> char" where
  "upper_chr c =
     (case map_of (zip ''abcdefghijklmnopqrstuvwxyz'' ''ABCDEFGHIJKLMNOPQRSTUVWXYZ'') c of
        Some u \<Rightarrow> u | None \<Rightarrow> c)"

definition example_platform :: platform where
  "example_platform =
     \<lparr>parse_date = (\<lambda>s. if s = ''2024-05-01'' then Some 1714521600000 else None),
      end_of_today = 1714607999999,
      date_uk = (\<lambda>s. if s = ''2024-05-01'' then ''01/05/2024'' else ''NaN/NaN/NaN''),
      today_uk = ''01/05/2024'',
      number_to_string = (\<lambda>x. if x = 34 then ''34'' else ''0''),
      to_fixed = (\<lambda>n x. ''0''),
      to_upper = map upper_chr\<rparr>"

definition example_location :: IncidentLocation where
  "example_location =
     \<lparr>gpsCoordinates = None, manualAddress = Some ''Unit 4, Mill Lane, Leeds'',
      siteName = None, department = None, area = None\<rparr>"

definition example_reporter :: ReportingPerson where
  "example_reporter =
     \<lparr>name_rp = Some ''Alex Morgan'', jobTitle = None, contactNumber = None, email = None,
      employer_rp = None\<rparr>"

definition example_description :: IncidentDescription where
  "example_description =
     \<lparr>whatHappened = Some ''Slipped on a wet floor near the loading bay'',
      sequenceOfEvents = None, activityAtTime = None, immediateCause = None,
      unsafeConditions = None, unsafeActs = None, environmentalFactors = None,
      equipmentFactors = None, supervisionPresent = ''yes'', areaPreviouslyInspected = ''no''\<rparr>"

definition example_person :: PersonInvolved where
  "example_person =
     \<lparr>fullName = Some ''Sam Taylor'', age = None, roleOrRelationship = ''employee'',
      employer_pi = None, contactDetails_pi = None, relevantTraining = None\<rparr>"

definition example_injury :: InjuryDetails where
  "example_injury =
     \<lparr>natureOfInjury = Some ''Sprain'', bodyPartsAffected = Some [''ankle''],
      severity = Some ''minor'', firstAidGiven = None, hospitalVisit = None,
      expectedLostTimeDays = None,
      ppeUsed = Some \<lparr>used = False, types = None, functioningProperly = None\<rparr>\<rparr>"

definition injury_report :: IncidentReport where
  "injury_report =
     \<lparr>referenceCode = ''INC-20240501-0001'', category = Some ''personal_injury'',
      dateOfIncident = Some ''2024-05-01'', timeOfIncident = Some ''14:30'',
      location = example_location, reportedBy = Some example_reporter, witnesses = None,
      personInvolved = Some example_person, injuryDetails = Some example_injury,
      propertyDamageDetails = None, vehicleDetails = None, publicLiabilityDetails = None,
      incidentDescription = Some example_description, rootCauseAnalysis = None,
      correctiveActions = None, attachments = None, signatures = None,
      riddorAssessment = None\<rparr>"

definition example_vehicle :: VehicleDetails where
  "example_vehicle =
     \<lparr>companyVehicle = Some True, registration = Some ''AB12 CDE'', makeModel = None,
      driverName = Some ''Jo Reed'', driverLicenceNumber = None, policeNotified = Some True,
      policeReferenceNumber = None, roadConditions = None, weatherConditions = None,
      approximateSpeedKmh = None\<rparr>"

definition vehicle_report :: IncidentReport where
  "vehicle_report =
     injury_report\<lparr>category := Some ''vehicle_incident'', personInvolved := None,
       injuryDetails := None, vehicleDetails := Some example_vehicle\<rparr>"

definition liability_report :: IncidentReport where
  "liability_report =
     injury_report\<lparr>category := Some ''public_liability'',
       injuryDetails := Some (example_injury\<lparr>severity := Some ''severe''\<rparr>),
       publicLiabilityDetails :=
         Some \<lparr>reasonForBeingOnSite = Some ''Delivery'', authorizedVisitor = True,
               signedIn = True, preExistingConditions = None, refusedTreatment = False\<rparr>\<rparr>"

definition example_actions :: "CorrectiveAction list" where
  "example_actions =
     [\<lparr>description = Some ''Repair the drain cover'', responsiblePerson = Some ''Jo Reed'',
       dueDate = Some ''2024-05-01'', status = ''open''\<rparr>,
      \<lparr>description = None, responsiblePerson = Some '' '', dueDate = None,
       status = ''open''\<rparr>]"

definition full_options :: PdfExportOptions where
  "full_options =
     \<lparr>summaryOnly = False, includePhotos = False, includeSignatures = False,
      includeRootCause = True, includeCorrectiveActions = True,
      includeWitnessStatements = True, includeAttachments = True\<rparr>"

definition investigation_report :: IncidentReport where
  "investigation_report = injury_report\<lparr>correctiveActions := Some example_actions\<rparr>"

definition invalid_registration_report :: IncidentReport where
  "invalid_registration_report =
     injury_report\<lparr>category := Some ''vehicle_incident'', personInvolved := None,
       injuryDetails := None,
       vehicleDetails :=
         Some \<lparr>companyVehicle = Some True, registration = Some ''INVALID'', makeModel = None,
               driverName = Some ''Jo Reed'', driverLicenceNumber = None,
               policeNotified = Some True, policeReferenceNumber = Some ''CR/2024/0117'',
               roadConditions = None, weatherConditions = None,
               approximateSpeedKmh = None\<rparr>\<rparr>"

section \<open>Properties\<close>

lemmas example_defs = example_platform_def example_location_def example_reporter_def
  example_description_def example_person_def example_injury_def injury_report_def
  full_options_def

lemmas rx_defs = timeRegex_def ukRegRegex_def Opt_def digits_def letters_i_def spaces_def
  strip_spaces_def is_space_def numeral_2_eq_2 numeral_3_eq_3

lemma trim_empty_iff: "trim s = [] \<longleftrightarrow> blank s"
proof
  assume "trim s = []"
  then have a: "\<forall>x \<in> set (dropWhile is_space s). is_space x"
    by (simp add: trim_def)
  have "dropWhile is_space s = []"
  proof (rule ccontr)
    assume n: "dropWhile is_space s \<noteq> []"
    then have "\<not> is_space (hd (dropWhile is_space s))" by (rule hd_dropWhile)
    moreover from n have "hd (dropWhile is_space s) \<in> set (dropWhile is_space s)"
      by (rule hd_in_set)
    ultimately show False using a by blast
  qed
  then show "blank s" by (simp add: blank_def list_all_iff)
next
  assume "blank s"
  then have "dropWhile is_space s = []" by (simp add: blank_def list_all_iff)
  then show "trim s = []" by (simp add: trim_def del: dropWhile_eq_Nil_conv)
qed

lemma blank_Nil: "blank []" by (simp add: blank_def)

lemma missing_iff: "missing x \<longleftrightarrow> absent_or_blank x"
  by (cases x) (auto simp: absent_or_blank_def trim_empty_iff blank_Nil)

lemma not_blank_nonempty: "\<not> blank s \<Longrightarrow> s \<noteq> []"
  by (auto simp: blank_def)

lemma time_1430: "rx_test timeRegex ''14:30''"
  by (simp add: timeRegex_def Opt_def digits_def)

lemma reg_INVALID: "\<not> rx_test ukRegRegex (strip_spaces ''INVALID'')"
  by (simp add: rx_defs)

lemma enumerate_nth_mem: "i < length xs \<Longrightarrow> (i, xs ! i) \<in> set (enumerate 0 xs)"
  by (simp add: in_set_enumerate_eq)

lemma investigation_errors_in_export:
  "\<not> summaryOnly options \<Longrightarrow>
   set (validateInvestigationFields r) \<subseteq> set (errors (validateIncidentForPDF p r options))"
  by (simp add: validateIncidentForPDF_def Let_def) blast

lemma export_invalid_if_error:
  "e \<in> set (errors (validateIncidentForPDF p r options)) \<Longrightarrow>
   \<not> valid (validateIncidentForPDF p r options)"
  by (auto simp: validateIncidentForPDF_def Let_def)












subsection \<open>Validation\<close>

text \<open>
  C1. A vehicle incident with \<open>policeNotified = true\<close> and no police reference number:
  the finding is meant to be an advisory warning. On such a record that passes every other
  rule, the validator returns the finding as its one blocking error, \<open>valid\<close> is false,
  and the warnings hold the attachments advisory only.
\<close>

theorem police_reference_blocks_validity:
  "errors (validateIncident example_platform vehicle_report) =
     [finding ''vehicleDetails.policeReferenceNumber''
        ''Police reference number is strongly recommended when police are notified''
        ''Vehicle Details'']
   \<and> \<not> valid (validateIncident example_platform vehicle_report)
   \<and> warnings (validateIncident example_platform vehicle_report) =
     [finding ''attachments'' ''Consider adding photos or other evidence'' ''Attachments'']"
proof -
  have b: "validateBasicInfo example_platform vehicle_report = []"
    by (simp add: validateBasicInfo_def example_defs vehicle_report_def example_vehicle_def
        date_in_future_def rx_defs trim_def)
  have v: "validateVehicleIncident vehicle_report =
     [finding ''vehicleDetails.policeReferenceNumber''
        ''Police reference number is strongly recommended when police are notified''
        ''Vehicle Details'']"
    by (simp add: validateVehicleIncident_def example_defs vehicle_report_def
        example_vehicle_def rx_defs trim_def)
  have w: "generateWarnings vehicle_report =
     [finding ''attachments'' ''Consider adding photos or other evidence'' ''Attachments'']"
    by (simp add: generateWarnings_def example_defs vehicle_report_def example_vehicle_def)
  have c: "category vehicle_report = Some ''vehicle_incident''"
    by (simp add: example_defs vehicle_report_def example_vehicle_def)
  show ?thesis by (simp add: validateIncident_def Let_def b v w c)
qed

text \<open>
  The same for every vehicle incident with police notified and no reference number: the
  finding is an error and the record is invalid; and no warning of any record is about the
  police reference number.
\<close>

lemma police_reference_is_an_error:
  assumes "category r = Some ''vehicle_incident''"
    and "vehicleDetails r = Some v" and "policeNotified v = Some True"
    and "absent_or_blank (policeReferenceNumber v)"
  shows "finding ''vehicleDetails.policeReferenceNumber''
           ''Police reference number is strongly recommended when police are notified''
           ''Vehicle Details'' \<in> set (errors (validateIncident p r))
       \<and> \<not> valid (validateIncident p r)"
  using assms
  by (simp add: validateIncident_def Let_def validateVehicleIncident_def missing_iff)

lemma police_reference_never_a_warning:
  "e \<in> set (warnings (validateIncident p r)) \<Longrightarrow>
   field e \<noteq> ''vehicleDetails.policeReferenceNumber''"
  by (auto simp: validateIncident_def Let_def generateWarnings_def witnessWarning_def
      split: option.splits if_splits)

text \<open>
  What the last test of \<open>generateWarnings\<close> computes, for every record: the reminder
  is among the warnings exactly when the record has no RIDDOR assessment and either the
  severity is \<open>fatal\<close>, or it is \<open>severe\<close> and the category is
  \<open>personal_injury\<close>.
\<close>

lemma riddor_reminder_iff:
  "finding ''riddorAssessment''
     ''Serious injury may be RIDDOR reportable - ensure HSE notification is considered''
     ''Legal Compliance'' \<in> set (generateWarnings r)
   \<longleftrightarrow> ((category r = Some ''personal_injury''
          \<and> Option.bind (injuryDetails r) severity = Some ''severe'')
        \<or> Option.bind (injuryDetails r) severity = Some ''fatal'')
       \<and> riddorAssessment r = None"
  by (auto simp: generateWarnings_def witnessWarning_def split: option.splits if_splits)

text \<open>
  C4, as stated: every record with severity \<open>severe\<close> or \<open>fatal\<close>, of any category,
  and no RIDDOR assessment gets the compliance reminder. It does not: on a public-liability
  record with severity \<open>severe\<close> and no RIDDOR assessment, which passes every rule, the
  warnings hold the attachments advisory only.
\<close>

theorem riddor_reminder_absent_for_severe_public_liability:
  "category liability_report = Some ''public_liability''
   \<and> Option.bind (injuryDetails liability_report) severity = Some ''severe''
   \<and> riddorAssessment liability_report = None
   \<and> errors (validateIncident example_platform liability_report) = []
   \<and> warnings (validateIncident example_platform liability_report) =
     [finding ''attachments'' ''Consider adding photos or other evidence'' ''Attachments'']"
proof -
  have b: "validateBasicInfo example_platform liability_report = []"
    by (simp add: validateBasicInfo_def example_defs liability_report_def date_in_future_def
        rx_defs trim_def)
  have v: "validatePublicLiability liability_report = []"
    by (simp add: validatePublicLiability_def example_defs liability_report_def rx_defs trim_def)
  have w: "generateWarnings liability_report =
     [finding ''attachments'' ''Consider adding photos or other evidence'' ''Attachments'']"
    by (simp add: generateWarnings_def example_defs liability_report_def)
  have c: "category liability_report = Some ''public_liability''"
    by (simp add: example_defs liability_report_def)
  show ?thesis
    by (simp add: validateIncident_def Let_def b v w c) (simp add: example_defs
        liability_report_def)
qed

text \<open>
  C4, amended: the reminder is gated on the category. Every personal-injury record with
  severity \<open>severe\<close> or \<open>fatal\<close> and no RIDDOR assessment gets the reminder; every
  record whose severity is neither, or that has a RIDDOR assessment, does not.
\<close>

theorem riddor_reminder_for_personal_injury:
  "(category r = Some ''personal_injury''
      \<and> (Option.bind (injuryDetails r) severity = Some ''severe''
           \<or> Option.bind (injuryDetails r) severity = Some ''fatal'')
      \<and> riddorAssessment r = None
    \<longrightarrow> finding ''riddorAssessment''
          ''Serious injury may be RIDDOR reportable - ensure HSE notification is considered''
          ''Legal Compliance'' \<in> set (warnings (validateIncident p r)))
   \<and> ((Option.bind (injuryDetails r) severity \<noteq> Some ''severe''
          \<and> Option.bind (injuryDetails r) severity \<noteq> Some ''fatal'')
        \<or> riddorAssessment r \<noteq> None
    \<longrightarrow> finding ''riddorAssessment''
          ''Serious injury may be RIDDOR reportable - ensure HSE notification is considered''
          ''Legal Compliance'' \<notin> set (warnings (validateIncident p r)))"
proof -
  have w: "warnings (validateIncident p r) = generateWarnings r"
    by (simp add: validateIncident_def Let_def)
  show ?thesis unfolding w riddor_reminder_iff by blast
qed

theorem riddor_reminder_for_personal_injury_witness:
  "finding ''riddorAssessment''
     ''Serious injury may be RIDDOR reportable - ensure HSE notification is considered''
     ''Legal Compliance''
     \<in> set (warnings (validateIncident example_platform
               (injury_report\<lparr>injuryDetails :=
                  Some (example_injury\<lparr>severity := Some ''severe''\<rparr>)\<rparr>)))
   \<and> finding ''riddorAssessment''
     ''Serious injury may be RIDDOR reportable - ensure HSE notification is considered''
     ''Legal Compliance''
     \<notin> set (warnings (validateIncident example_platform injury_report))"
proof -
  let ?severe = "injury_report\<lparr>injuryDetails := Some (example_injury\<lparr>severity := Some ''severe''\<rparr>)\<rparr>"
  have a: "category ?severe = Some ''personal_injury''
      \<and> (Option.bind (injuryDetails ?severe) severity = Some ''severe''
           \<or> Option.bind (injuryDetails ?severe) severity = Some ''fatal'')
      \<and> riddorAssessment ?severe = None"
    by (simp add: example_defs)
  have b: "(Option.bind (injuryDetails injury_report) severity \<noteq> Some ''severe''
          \<and> Option.bind (injuryDetails injury_report) severity \<noteq> Some ''fatal'')
        \<or> riddorAssessment injury_report \<noteq> None"
    by (simp add: example_defs)
  have "finding ''riddorAssessment''
     ''Serious injury may be RIDDOR reportable - ensure HSE notification is considered''
     ''Legal Compliance'' \<in> set (warnings (validateIncident example_platform ?severe))"
    by (rule riddor_reminder_for_personal_injury
          [of ?severe example_platform, THEN conjunct1, THEN mp, OF a])
  moreover
  have "finding ''riddorAssessment''
     ''Serious injury may be RIDDOR reportable - ensure HSE notification is considered''
     ''Legal Compliance'' \<notin> set (warnings (validateIncident example_platform injury_report))"
    by (rule riddor_reminder_for_personal_injury
          [of injury_report example_platform, THEN conjunct2, THEN mp, OF b])
  ultimately show ?thesis ..
qed

text \<open>
  C5. The round-trip scenario: a personal-injury record dated not after the end of today,
  at 14:30, with a manual address, a reporter name, a description of at least 20 characters,
  the full name of the person involved, and injury details with the nature of the injury,
  severity \<open>minor\<close>, at least one body part and a PPE object, is valid and has no
  error. A name or description is set when it is not blank, as the validator reads it.
\<close>

theorem personal_injury_roundtrip_valid:
  assumes cat: "category r = Some ''personal_injury''"
    and date: "dateOfIncident r = Some d" "d \<noteq> []" "\<not> date_in_future p d"
    and time: "timeOfIncident r = Some ''14:30''"
    and loc: "manualAddress (location r) = Some a" "a \<noteq> []"
    and rep: "reportedBy r = Some rb" "name_rp rb = Some n" "\<not> blank n"
    and desc: "incidentDescription r = Some ds" "whatHappened ds = Some w" "\<not> blank w"
      "length w \<ge> 20"
    and person: "personInvolved r = Some person" "fullName person = Some fn" "\<not> blank fn"
    and inj: "injuryDetails r = Some i" "natureOfInjury i = Some ni" "\<not> blank ni"
      "severity i = Some ''minor''" "bodyPartsAffected i = Some (b # bs)" "ppeUsed i = Some ppe"
  shows "valid (validateIncident p r) \<and> errors (validateIncident p r) = []"
proof -
  have basic: "validateBasicInfo p r = []"
    using cat date time loc rep desc
    by (simp add: validateBasicInfo_def time_1430 trim_empty_iff missing_iff absent_or_blank_def
        not_blank_nonempty del: rx_test.simps)
  have specific: "validatePersonalInjury r = []"
    using person inj
    by (simp add: validatePersonalInjury_def missing_iff absent_or_blank_def)
  show ?thesis using cat basic specific by (simp add: validateIncident_def Let_def)
qed

theorem personal_injury_roundtrip_valid_witness:
  "category injury_report = Some ''personal_injury''
   \<and> timeOfIncident injury_report = Some ''14:30''
   \<and> valid (validateIncident example_platform injury_report)
   \<and> errors (validateIncident example_platform injury_report) = []"
proof -
  have "valid (validateIncident example_platform injury_report)
      \<and> errors (validateIncident example_platform injury_report) = []"
    by (rule personal_injury_roundtrip_valid
          [where d = "''2024-05-01''" and a = "''Unit 4, Mill Lane, Leeds''"
             and rb = example_reporter and n = "''Alex Morgan''" and ds = example_description
             and w = "''Slipped on a wet floor near the loading bay''"
             and person = example_person and fn = "''Sam Taylor''" and i = example_injury
             and ni = "''Sprain''" and b = "''ankle''" and bs = "[]"
             and ppe = "\<lparr>used = False, types = None, functioningProperly = None\<rparr>"])
       (simp_all add: example_defs date_in_future_def blank_def is_space_def)
  then show ?thesis by (simp add: example_defs)
qed

text \<open>
  C6. Export with \<open>summaryOnly = false\<close>: an absent or empty list of corrective actions
  gives the blocking error on \<open>correctiveActions\<close>, whatever the other fields; in a
  list, every entry \<open>i\<close> without a description (or responsible person) gives a blocking
  error whose path is \<open>correctiveActions[i].description\<close>
  (\<open>correctiveActions[i].responsiblePerson\<close>), with \<open>i\<close> in decimal.
\<close>

theorem export_corrective_actions_errors:
  assumes full: "\<not> summaryOnly options"
  shows "(correctiveActions r = None \<or> correctiveActions r = Some [] \<longrightarrow>
            finding ''correctiveActions''
              ''At least one corrective action is required for investigation report''
              ''Corrective Actions'' \<in> set (errors (validateIncidentForPDF p r options))
            \<and> \<not> valid (validateIncidentForPDF p r options))
       \<and> (\<forall>actions i. correctiveActions r = Some actions \<and> i < length actions \<longrightarrow>
            (absent_or_blank (description (actions ! i)) \<longrightarrow>
               finding (''correctiveActions['' @ show_nat i @ ''].description'')
                 (''Corrective action '' @ show_nat (i + 1) @ '': Description is required'')
                 ''Corrective Actions'' \<in> set (errors (validateIncidentForPDF p r options)))
          \<and> (absent_or_blank (responsiblePerson (actions ! i)) \<longrightarrow>
               finding (''correctiveActions['' @ show_nat i @ ''].responsiblePerson'')
                 (''Corrective action '' @ show_nat (i + 1)
                    @ '': Responsible person is required'')
                 ''Corrective Actions'' \<in> set (errors (validateIncidentForPDF p r options))))"
proof (intro conjI allI impI)
  assume "correctiveActions r = None \<or> correctiveActions r = Some []"
  then have "finding ''correctiveActions''
      ''At least one corrective action is required for investigation report''
      ''Corrective Actions'' \<in> set (validateInvestigationFields r)"
    by (auto simp: validateInvestigationFields_def)
  then show e: "finding ''correctiveActions''
      ''At least one corrective action is required for investigation report''
      ''Corrective Actions'' \<in> set (errors (validateIncidentForPDF p r options))"
    using investigation_errors_in_export [OF full] by blast
  then show "\<not> valid (validateIncidentForPDF p r options)"
    by (rule export_invalid_if_error)
next
  fix actions i
  assume a: "correctiveActions r = Some actions \<and> i < length actions"
  then have ne: "length actions \<noteq> 0" by auto
  from a have mem: "(i, actions ! i) \<in> set (enumerate 0 actions)"
    by (simp add: enumerate_nth_mem)
  have sub: "set (validateCorrectiveAction (i, actions ! i)) \<subseteq> set (validateInvestigationFields r)"
    using a ne mem by (auto simp: validateInvestigationFields_def)
  {
    assume "absent_or_blank (description (actions ! i))"
    then have "finding (''correctiveActions['' @ show_nat i @ ''].description'')
                 (''Corrective action '' @ show_nat (i + 1) @ '': Description is required'')
                 ''Corrective Actions'' \<in> set (validateCorrectiveAction (i, actions ! i))"
      by (simp add: validateCorrectiveAction_def missing_iff)
    then show "finding (''correctiveActions['' @ show_nat i @ ''].description'')
                 (''Corrective action '' @ show_nat (i + 1) @ '': Description is required'')
                 ''Corrective Actions'' \<in> set (errors (validateIncidentForPDF p r options))"
      using sub investigation_errors_in_export [OF full] by blast
  }
  {
    assume "absent_or_blank (responsiblePerson (actions ! i))"
    then have "finding (''correctiveActions['' @ show_nat i @ ''].responsiblePerson'')
                 (''Corrective action '' @ show_nat (i + 1)
                    @ '': Responsible person is required'')
                 ''Corrective Actions'' \<in> set (validateCorrectiveAction (i, actions ! i))"
      by (simp add: validateCorrectiveAction_def missing_iff)
    then show "finding (''correctiveActions['' @ show_nat i @ ''].responsiblePerson'')
                 (''Corrective action '' @ show_nat (i + 1)
                    @ '': Responsible person is required'')
                 ''Corrective Actions'' \<in> set (errors (validateIncidentForPDF p r options))"
      using sub investigation_errors_in_export [OF full] by blast
  }
qed


theorem export_corrective_actions_errors_witness:
  "\<not> summaryOnly full_options
   \<and> correctiveActions injury_report = None
   \<and> finding ''correctiveActions''
       ''At least one corrective action is required for investigation report''
       ''Corrective Actions''
       \<in> set (errors (validateIncidentForPDF example_platform injury_report full_options))
   \<and> finding ''correctiveActions[1].description''
       ''Corrective action 2: Description is required'' ''Corrective Actions''
       \<in> set (errors (validateIncidentForPDF example_platform investigation_report full_options))
   \<and> finding ''correctiveActions[1].responsiblePerson''
       ''Corrective action 2: Responsible person is required'' ''Corrective Actions''
       \<in> set (errors (validateIncidentForPDF example_platform investigation_report full_options))"
proof -
  have f: "\<not> summaryOnly full_options" by (simp add: full_options_def)
  have n: "correctiveActions injury_report = None" by (simp add: injury_report_def)
  have s: "correctiveActions investigation_report = Some example_actions
           \<and> 1 < length example_actions"
    by (simp add: investigation_report_def example_actions_def)
  have d: "absent_or_blank (description (example_actions ! 1))"
          "absent_or_blank (responsiblePerson (example_actions ! 1))"
    by (simp_all add: example_actions_def absent_or_blank_def blank_def is_space_def)
  have sh: "show_nat (Suc 0) = ''1''" "show_nat (Suc (Suc 0)) = ''2''"
    by (simp_all add: show_nat.simps digit_chr_def)
  note t1 = export_corrective_actions_errors [OF f, where r = injury_report and p = example_platform]
  note t2 = export_corrective_actions_errors [OF f, where r = investigation_report
      and p = example_platform]
  from t1 n have a: "finding ''correctiveActions''
       ''At least one corrective action is required for investigation report''
       ''Corrective Actions''
       \<in> set (errors (validateIncidentForPDF example_platform injury_report full_options))"
    by blast
  from t2 s d have "finding (''correctiveActions['' @ show_nat 1 @ ''].description'')
                 (''Corrective action '' @ show_nat (1 + 1) @ '': Description is required'')
                 ''Corrective Actions''
       \<in> set (errors (validateIncidentForPDF example_platform investigation_report full_options))
     \<and> finding (''correctiveActions['' @ show_nat 1 @ ''].responsiblePerson'')
                 (''Corrective action '' @ show_nat (1 + 1)
                    @ '': Responsible person is required'')
                 ''Corrective Actions''
       \<in> set (errors (validateIncidentForPDF example_platform investigation_report full_options))"
    by blast
  then show ?thesis using f n a by (simp add: sh)
qed

text \<open>
  C7. A vehicle incident that passes every other rule and whose registration is
  \<open>INVALID\<close> has exactly one blocking error, on \<open>vehicleDetails.registration\<close>, with
  the message about the UK format.
\<close>

theorem invalid_registration_single_error:
  assumes basic: "validateBasicInfo p r = []"
    and cat: "category r = Some ''vehicle_incident''"
    and veh: "vehicleDetails r = Some v" "registration v = Some ''INVALID''"
    and driver: "driverName v = Some dn" "\<not> blank dn"
    and flags: "companyVehicle v = Some cv" "policeNotified v = Some pn"
    and police: "pn \<longrightarrow> \<not> absent_or_blank (policeReferenceNumber v)"
  shows "errors (validateIncident p r) =
           [finding ''vehicleDetails.registration''
              ''Please enter a valid UK vehicle registration'' ''Vehicle Details'']
       \<and> \<not> valid (validateIncident p r)"
proof -
  have t: "trim ''INVALID'' \<noteq> []"
    by (simp add: trim_empty_iff blank_def is_space_def)
  have "validateVehicleIncident r =
          [finding ''vehicleDetails.registration''
             ''Please enter a valid UK vehicle registration'' ''Vehicle Details'']"
    using veh driver flags police t reg_INVALID
    by (auto simp add: validateVehicleIncident_def missing_iff absent_or_blank_def
        simp del: rx_test.simps)
  then show ?thesis using basic cat by (simp add: validateIncident_def Let_def)
qed

theorem invalid_registration_single_error_witness:
  "Option.bind (vehicleDetails invalid_registration_report) registration = Some ''INVALID''
   \<and> errors (validateIncident example_platform invalid_registration_report) =
       [finding ''vehicleDetails.registration''
          ''Please enter a valid UK vehicle registration'' ''Vehicle Details'']
   \<and> \<not> valid (validateIncident example_platform invalid_registration_report)"
proof -
  have b: "validateBasicInfo example_platform invalid_registration_report = []"
    by (simp add: validateBasicInfo_def example_defs invalid_registration_report_def
        date_in_future_def rx_defs trim_def)
  have "errors (validateIncident example_platform invalid_registration_report) =
       [finding ''vehicleDetails.registration''
          ''Please enter a valid UK vehicle registration'' ''Vehicle Details'']
   \<and> \<not> valid (validateIncident example_platform invalid_registration_report)"
    by (rule invalid_registration_single_error
          [where v = "\<lparr>companyVehicle = Some True, registration = Some ''INVALID'',
                        makeModel = None, driverName = Some ''Jo Reed'',
                        driverLicenceNumber = None, policeNotified = Some True,
                        policeReferenceNumber = Some ''CR/2024/0117'', roadConditions = None,
                        weatherConditions = None, approximateSpeedKmh = None\<rparr>"
             and dn = "''Jo Reed''" and cv = True and pn = True, OF b])
       (simp_all add: example_defs invalid_registration_report_def blank_def absent_or_blank_def is_space_def)
  then show ?thesis by (simp add: example_defs invalid_registration_report_def)
qed

text \<open>
  C10. Validation for export returns exactly the warnings of plain validation: the rules
  for export, signatures and photos add blocking errors only, after the errors of plain
  validation.
\<close>

theorem export_warnings_same:
  "warnings (validateIncidentForPDF p incident options) = warnings (validateIncident p incident)
   \<and> (\<exists>added. errors (validateIncidentForPDF p incident options)
                  = errors (validateIncident p incident) @ added)"
  by (simp add: validateIncidentForPDF_def Let_def)

theorem export_warnings_same_witness:
  "warnings (validateIncidentForPDF example_platform injury_report full_options)
     = warnings (validateIncident example_platform injury_report)"
  by (rule export_warnings_same [THEN conjunct1])

subsection \<open>Mapping\<close>





text \<open>
  C8. For a record without attachments (absent or empty list) and options with
  \<open>includeAttachments = true\<close>, the document model has no attachments section.
\<close>

theorem no_attachment_section_without_attachments:
  assumes "attachments r = None \<or> attachments r = Some []"
    and "includeAttachments options"
    and "mapIncidentToPdfModel p r options = Inr m"
  shows "attachmentsSection m = None"
  using assms
  by (auto simp: mapIncidentToPdfModel_def bind_js_def split: sum.splits)


theorem no_attachment_section_without_attachments_witness:
  "attachments injury_report = None \<and> includeAttachments full_options
   \<and> (\<exists>m. mapIncidentToPdfModel example_platform injury_report full_options = Inr m
          \<and> attachmentsSection m = None)"
proof -
  have a: "attachments injury_report = None" by (simp add: injury_report_def)
  have i: "includeAttachments full_options" by (simp add: full_options_def)
  have "\<exists>m. mapIncidentToPdfModel example_platform injury_report full_options = Inr m"
    by (simp add: mapIncidentToPdfModel_def bind_js_def incidentInformationSection_def
        formatDateUK_def formatTimeUK_def reportedBySection_def section_if_def optional_if_def
        buildInjuryDetailsSection_def buildIncidentDescriptionSection_def example_defs)
  then obtain m where m: "mapIncidentToPdfModel example_platform injury_report full_options = Inr m"
    by blast
  from a have "attachments injury_report = None \<or> attachments injury_report = Some []" by simp
  then have "attachmentsSection m = None"
    using i m by (rule no_attachment_section_without_attachments)
  with a i m show ?thesis by blast
qed


subsection \<open>Page flow\<close>

text \<open>
  Every threshold of the layout is \<open>PAGE_HEIGHT - MARGIN_BOTTOM\<close> less a whole reserve, so
  it is not a whole number; the cursor starts at \<open>MARGIN_TOP + 100\<close>, moves by whole steps
  and is reset to \<open>MARGIN_TOP\<close>, so it stays a whole number through
  \<open>addSection\<close> and \<open>addTable\<close>: the cursor of a layout is never exactly at a
  threshold.
\<close>

lemma threshold_not_integer: "PAGE_HEIGHT - MARGIN_BOTTOM - of_int k \<notin> \<int>"
proof
  assume a: "PAGE_HEIGHT - MARGIN_BOTTOM - of_int k \<in> \<int>"
  from a show False
  proof (rule Ints_cases)
    fix n :: int
    assume "PAGE_HEIGHT - MARGIN_BOTTOM - of_int k = of_int n"
    then have "(of_int (100 * (n + k)) :: real) = of_int 79189"
      by (simp add: PAGE_HEIGHT_def MARGIN_BOTTOM_def)
    then have "100 * (n + k) = 79189" by (simp only: of_int_eq_iff)
    then show False by presburger
  qed
qed

lemma cursor_never_at_threshold:
  "y \<in> \<int> \<Longrightarrow> y \<noteq> PAGE_HEIGHT - MARGIN_BOTTOM - of_int k"
  using threshold_not_integer [of k] by auto

lemma new_page_check_integer:
  "y \<in> \<int> \<Longrightarrow> snd (new_page_check reserve (doc, y)) \<in> \<int>"
  by (simp add: new_page_check_def MARGIN_TOP_def)

lemma section_rows_integer:
  "y \<in> \<int> \<Longrightarrow> snd (section_rows doc rs y) \<in> \<int>"
proof (induction rs arbitrary: doc y)
  case Nil
  then show ?case by simp
next
  case (Cons r rs)
  then show ?case by (simp add: new_page_check_def MARGIN_TOP_def)
qed

lemma table_rows_integer:
  "y \<in> \<int> \<Longrightarrow> snd (table_rows doc rs w y) \<in> \<int>"
proof (induction rs arbitrary: doc y)
  case Nil
  then show ?case by simp
next
  case (Cons r rs)
  then show ?case by (simp add: new_page_check_def MARGIN_TOP_def)
qed

lemma add_section_integer: "y \<in> \<int> \<Longrightarrow> snd (addSection doc s y) \<in> \<int>"
proof -
  assume y: "y \<in> \<int>"
  obtain doc1 y1 where c: "new_page_check 100 (doc, y) = (doc1, y1)"
    by (cases "new_page_check 100 (doc, y)")
  with new_page_check_integer [OF y, of 100 doc] have "y1 \<in> \<int>" by simp
  then have "y1 + 25 \<in> \<int>" by simp
  then have "snd (section_rows (doc1 @ [Text (Str (title_sec s)) MARGIN_LEFT y1])
                    (rows_sec s) (y1 + 25)) \<in> \<int>"
    by (rule section_rows_integer)
  then show ?thesis by (simp add: addSection_def c case_prod_unfold)
qed

lemma add_table_integer: "y \<in> \<int> \<Longrightarrow> snd (addTable doc t y) \<in> \<int>"
proof -
  assume y: "y \<in> \<int>"
  obtain doc1 y1 where c: "new_page_check 150 (doc, y) = (doc1, y1)"
    by (cases "new_page_check 150 (doc, y)")
  with new_page_check_integer [OF y, of 150 doc] have "y1 \<in> \<int>" by simp
  then have "y1 + 25 + 20 \<in> \<int>" by simp
  then have "\<And>d w. snd (table_rows d (rows_tab t) w (y1 + 25 + 20)) \<in> \<int>"
    by (rule table_rows_integer)
  then show ?thesis by (simp add: addTable_def c Let_def case_prod_unfold)
qed

end
